theory Spec2Isabelle
  imports Complex_Main
begin

section \<open>Strings\<close>

text \<open>
  Python strings are sequences of code points. They are modelled as HOL strings, whose
  characters are the code points 0 to 255; the character functions below are Python's
  \<^verbatim>\<open>str.isalnum\<close> and \<^verbatim>\<open>str.lower\<close> on that range.
\<close>

definition in_range :: "nat \<Rightarrow> nat \<Rightarrow> char \<Rightarrow> bool" where
  "in_range lo hi c = (lo \<le> of_char c \<and> of_char c \<le> (hi::nat))"

definition isalnum :: "char \<Rightarrow> bool" where
  "isalnum c =
     (in_range 48 57 c \<or> in_range 65 90 c \<or> in_range 97 122 c \<or>
      of_char c = (170::nat) \<or> in_range 178 179 c \<or> of_char c = (181::nat) \<or>
      in_range 185 186 c \<or> in_range 188 190 c \<or> in_range 192 214 c \<or>
      in_range 216 246 c \<or> in_range 248 255 c)"

definition lower_char :: "char \<Rightarrow> char" where
  "lower_char c =
     (if in_range 65 90 c \<or> in_range 192 214 c \<or> in_range 216 222 c
      then char_of (of_char c + (32::nat)) else c)"

definition lower :: "string \<Rightarrow> string" where
  "lower s = map lower_char s"

definition endswith :: "string \<Rightarrow> string \<Rightarrow> bool" where
  "endswith s ext = (length ext \<le> length s \<and> drop (length s - length ext) s = ext)"

definition replace_char :: "char \<Rightarrow> char \<Rightarrow> string \<Rightarrow> string" where
  "replace_char a b s = map (\<lambda>c. if c = a then b else c) s"

fun rfind :: "char \<Rightarrow> string \<Rightarrow> nat option" where
  "rfind c [] = None"
| "rfind c (x # xs) =
     (case rfind c xs of
        Some i \<Rightarrow> Some (Suc i)
      | None \<Rightarrow> if x = c then Some 0 else None)"

text \<open>The text of \<^verbatim>\<open>str(x)\<close> for an optional string: \<^verbatim>\<open>None\<close> prints as its name.\<close>

definition str_opt :: "string option \<Rightarrow> string" where
  "str_opt x = (case x of None \<Rightarrow> ''None'' | Some s \<Rightarrow> s)"

section \<open>Paths\<close>

text \<open>
  A \<^verbatim>\<open>pathlib\<close> POSIX path: its root (empty, one slash or two) and its components.
  Parsing drops empty components and single dots and keeps \<^verbatim>\<open>..\<close>.
\<close>

record ppath =
  root :: string
  parts :: "string list"

fun split_slash :: "string \<Rightarrow> string \<Rightarrow> string list" where
  "split_slash cur [] = [rev cur]"
| "split_slash cur (c # cs) =
     (if c = CHR ''/'' then rev cur # split_slash [] cs else split_slash (c # cur) cs)"

definition path_root :: "string \<Rightarrow> string" where
  "path_root s =
     (if take 1 s \<noteq> ''/'' then ''''
      else if take 2 s = ''//'' \<and> take 3 s \<noteq> ''///'' then ''//''
      else ''/'')"

definition Path :: "string \<Rightarrow> ppath" where
  "Path s = \<lparr> root = path_root s,
              parts = filter (\<lambda>c. c \<noteq> '''' \<and> c \<noteq> ''.'') (split_slash [] s) \<rparr>"

text \<open>The operator \<^verbatim>\<open>path / str\<close>: a right operand with a root replaces the left one.\<close>

definition path_join :: "ppath \<Rightarrow> string \<Rightarrow> ppath" where
  "path_join p s =
     (let q = Path s in if root q \<noteq> '''' then q else p\<lparr> parts := parts p @ parts q \<rparr>)"

fun join_slash :: "string list \<Rightarrow> string" where
  "join_slash [] = ''''"
| "join_slash [x] = x"
| "join_slash (x # y # ys) = x @ ''/'' @ join_slash (y # ys)"

definition path_str :: "ppath \<Rightarrow> string" where
  "path_str p = (if root p = '''' \<and> parts p = [] then ''.'' else root p @ join_slash (parts p))"

definition path_name :: "ppath \<Rightarrow> string" where
  "path_name p = (if parts p = [] then '''' else last (parts p))"

definition name_suffix :: "string \<Rightarrow> string" where
  "name_suffix n =
     (case rfind CHR ''.'' n of
        Some i \<Rightarrow> if 0 < i \<and> i + 1 < length n then drop i n else ''''
      | None \<Rightarrow> '''')"

definition name_stem :: "string \<Rightarrow> string" where
  "name_stem n =
     (case rfind CHR ''.'' n of
        Some i \<Rightarrow> if 0 < i \<and> i + 1 < length n then take i n else n
      | None \<Rightarrow> n)"

definition path_suffix :: "ppath \<Rightarrow> string" where
  "path_suffix p = name_suffix (path_name p)"

definition path_stem :: "ppath \<Rightarrow> string" where
  "path_stem p = name_stem (path_name p)"

section \<open>The file store\<close>

text \<open>
  The operating system resolves a path to a location: the list of directory names from
  the root down to the entry. Resolution is lexical (\<^verbatim>\<open>..\<close> steps to the parent, the
  root is its own parent); symbolic links are not modelled. The store holds regular
  files, in the order in which a directory scan enumerates them. Creating the voice
  directory, unlinking a file that exists and the temporary file of an upload are taken
  to succeed; every other library call may raise.
\<close>

type_synonym location = "string list"
type_synonym waveform = "real list list"
type_synonym bytes = "nat list"

datatype file_data = AudioFile waveform nat | RawFile bytes

type_synonym file_store = "(location \<times> file_data) list"

fun walk :: "location \<Rightarrow> string list \<Rightarrow> location" where
  "walk cur [] = cur"
| "walk cur (c # cs) = walk (if c = ''..'' then butlast cur else cur @ [c]) cs"

definition locate :: "location \<Rightarrow> ppath \<Rightarrow> location" where
  "locate wd p = walk (if root p = '''' then wd else []) (parts p)"

definition file_exists :: "location \<Rightarrow> file_store \<Rightarrow> ppath \<Rightarrow> bool" where
  "file_exists wd fs p = (map_of fs (locate wd p) \<noteq> None)"


definition write_file :: "location \<Rightarrow> file_store \<Rightarrow> ppath \<Rightarrow> file_data \<Rightarrow> file_store" where
  "write_file wd fs p d =
     (if file_exists wd fs p
      then map (\<lambda>e. if fst e = locate wd p then (fst e, d) else e) fs
      else fs @ [(locate wd p, d)])"

text \<open>The names of the entries directly inside a directory, in enumeration order.\<close>

definition dir_names :: "location \<Rightarrow> file_store \<Rightarrow> ppath \<Rightarrow> string list" where
  "dir_names wd fs d =
     map (\<lambda>e. last (fst e))
       (filter (\<lambda>e. fst e \<noteq> [] \<and> butlast (fst e) = locate wd d) fs)"

text \<open>\<^verbatim>\<open>d.glob("*" + ext)\<close>: the children of \<open>d\<close> whose name ends with \<open>ext\<close>.\<close>

definition glob_ext :: "location \<Rightarrow> file_store \<Rightarrow> ppath \<Rightarrow> string \<Rightarrow> ppath list" where
  "glob_ext wd fs d ext =
     map (\<lambda>n. d\<lparr> parts := parts d @ [n] \<rparr>) (filter (\<lambda>n. endswith n ext) (dir_names wd fs d))"

section \<open>Configuration, runtime and server state\<close>

record config =
  CHATTERBOX_DEVICE :: string
  VOICE_SAMPLES_DIR :: string
  cwd :: location

text \<open>An engine invocation: the text, the reference audio and the tuning arguments
  passed; \<open>None\<close> is an argument left to the engine's default.\<close>

record gen_call =
  gen_text :: string
  audio_prompt_path :: "string option"
  exaggeration :: "real option"
  cfg_weight :: "real option"

text \<open>
  What the libraries do is a parameter of the model. A result \<open>Inl msg\<close> is a raised
  exception with message \<open>msg\<close>. The loader's first argument is the number of loads
  invoked before, so that a load may fail once and succeed later.
\<close>

record 'h runtime =
  cuda_available :: bool
  mps_available :: bool
  from_pretrained :: "nat \<Rightarrow> string \<Rightarrow> string + 'h"
  model_sr :: "'h \<Rightarrow> nat"
  generate :: "'h \<Rightarrow> file_store \<Rightarrow> gen_call \<Rightarrow> string + waveform"
  ta_save_buffer :: "string \<Rightarrow> waveform \<Rightarrow> nat \<Rightarrow> string + bytes"
  ta_save_file :: "string \<Rightarrow> waveform \<Rightarrow> nat \<Rightarrow> string option"
  ta_load :: "string \<Rightarrow> bytes \<Rightarrow> string + (waveform \<times> nat)"
  resample_channel :: "nat \<Rightarrow> nat \<Rightarrow> real list \<Rightarrow> real list"
  str_title :: "string \<Rightarrow> string"

datatype event =
    Log string string
  | Mkdir string
  | Glob string string
  | Exists string
  | Unlink string
  | SaveFile string
  | Load string
  | Generate gen_call

record 'h server =
  model :: "'h option"
  device :: string
  files :: file_store
  trace :: "event list"

definition emit :: "event \<Rightarrow> 'h server \<Rightarrow> 'h server" where
  "emit e st = st\<lparr> trace := trace st @ [e] \<rparr>"

definition is_load :: "event \<Rightarrow> bool" where
  "is_load e = (case e of Load d \<Rightarrow> True | _ \<Rightarrow> False)"

definition is_fs_event :: "event \<Rightarrow> bool" where
  "is_fs_event e =
     (case e of Mkdir p \<Rightarrow> True | Glob p x \<Rightarrow> True | Exists p \<Rightarrow> True
      | Unlink p \<Rightarrow> True | SaveFile p \<Rightarrow> True | _ \<Rightarrow> False)"

definition load_count :: "'h server \<Rightarrow> nat" where
  "load_count st = length (filter is_load (trace st))"

record http_error =
  status_code :: nat
  detail :: string

section \<open>Model lifecycle\<close>

definition get_device :: "'h runtime \<Rightarrow> config \<Rightarrow> 'h server \<Rightarrow> string \<times> 'h server" where
  "get_device rt cfg st =
     (let d = (if CHATTERBOX_DEVICE cfg = ''auto''
               then (if cuda_available rt then ''cuda''
                     else if mps_available rt then ''mps''
                     else ''cpu'')
               else CHATTERBOX_DEVICE cfg)
      in (d, st\<lparr> device := d \<rparr>))"

definition get_model :: "'h runtime \<Rightarrow> config \<Rightarrow> 'h server \<Rightarrow> (string + 'h) \<times> 'h server" where
  "get_model rt cfg st =
     (case model st of
        Some m \<Rightarrow> (Inr m, st)
      | None \<Rightarrow>
          (case get_device rt cfg st of (dev, st1) \<Rightarrow>
             let st2 = emit (Log ''info'' (''Loading Chatterbox model on '' @ dev @ ''...'')) st1;
                 st3 = emit (Load dev) st2
             in (case from_pretrained rt (load_count st2) dev of
                   Inl e \<Rightarrow> (Inl e, st3)
                 | Inr m \<Rightarrow>
                     (Inr m, emit (Log ''info'' ''Chatterbox model loaded successfully'')
                               (st3\<lparr> model := Some m \<rparr>)))))"

definition startup_event :: "'h runtime \<Rightarrow> config \<Rightarrow> 'h server \<Rightarrow> 'h server" where
  "startup_event rt cfg st =
     (let st1 = emit (Log ''info'' ''Starting Chatterbox TTS Server...'') st;
          st2 = emit (Log ''info'' (''Voice samples directory: '' @ VOICE_SAMPLES_DIR cfg)) st1;
          st3 = emit (Log ''info'' (''Device preference: '' @ CHATTERBOX_DEVICE cfg)) st2
      in (case get_model rt cfg st3 of
            (Inr m, st4) \<Rightarrow> emit (Log ''info'' ''Chatterbox model pre-loaded successfully'') st4
          | (Inl e, st4) \<Rightarrow>
              emit (Log ''warning''
                      (''Could not pre-load model: '' @ e @ ''. Will load on first request.'')) st4))"

section \<open>Voice store\<close>

definition get_voice_samples_path :: "config \<Rightarrow> 'h server \<Rightarrow> ppath \<times> 'h server" where
  "get_voice_samples_path cfg st =
     (let path = Path (VOICE_SAMPLES_DIR cfg) in (path, emit (Mkdir (path_str path)) st))"

record voice_info =
  voice_id :: string
  voice_name :: string
  description :: string
  is_custom :: bool
  voice_path :: "string option"

definition default_voice :: voice_info where
  "default_voice =
     \<lparr> voice_id = ''default'', voice_name = ''Default Voice'',
       description = ''Built-in default voice (no reference audio)'',
       is_custom = False, voice_path = None \<rparr>"

definition custom_voice :: "'h runtime \<Rightarrow> ppath \<Rightarrow> voice_info" where
  "custom_voice rt audio_file =
     \<lparr> voice_id = path_stem audio_file,
       voice_name = str_title rt (replace_char CHR ''_'' CHR '' '' (path_stem audio_file)),
       description = ''Custom voice from '' @ path_name audio_file,
       is_custom = True, voice_path = Some (path_str audio_file) \<rparr>"

definition list_voice_samples ::
  "'h runtime \<Rightarrow> config \<Rightarrow> 'h server \<Rightarrow> voice_info list \<times> 'h server" where
  "list_voice_samples rt cfg st =
     (case get_voice_samples_path cfg st of (voices_path, st1) \<Rightarrow>
        let voices = [default_voice];
            st2 = emit (Glob (path_str voices_path) ''*.wav'') st1;
            voices = voices @ map (custom_voice rt) (glob_ext (cwd cfg) (files st2) voices_path ''.wav'');
            st3 = emit (Glob (path_str voices_path) ''*.mp3'') st2;
            voices = voices @ map (custom_voice rt) (glob_ext (cwd cfg) (files st3) voices_path ''.mp3'')
        in (voices, st3))"

definition list_voices ::
  "'h runtime \<Rightarrow> config \<Rightarrow> 'h server \<Rightarrow> (string list \<times> voice_info list) \<times> 'h server" where
  "list_voices rt cfg st =
     (case list_voice_samples rt cfg st of (voices, st1) \<Rightarrow>
        ((map voice_id voices, voices), st1))"

subsection \<open>Upload\<close>

record upload_file =
  filename :: "string option"
  content :: bytes

record upload_ok =
  up_success :: bool
  up_voice_id :: string
  up_path :: string

definition safe_name_of :: "string \<Rightarrow> string" where
  "safe_name_of name =
     lower (map (\<lambda>c. if isalnum c \<or> c \<in> set ''_-'' then c else CHR ''_'') name)"

text \<open>\<^verbatim>\<open>waveform.mean(dim=0, keepdim=True)\<close>: one channel, each frame the average of the
  frame over all channels. Samples are real numbers here; rounding is not modelled.\<close>

definition mean_channels :: "waveform \<Rightarrow> waveform" where
  "mean_channels w = [map (\<lambda>frame. sum_list frame / real (length w)) (transpose w)]"

definition normalize_waveform :: "'h runtime \<Rightarrow> waveform \<Rightarrow> nat \<Rightarrow> waveform" where
  "normalize_waveform rt waveform sample_rate =
     (let waveform = (if sample_rate \<noteq> 24000
                      then map (resample_channel rt sample_rate 24000) waveform
                      else waveform);
          waveform = (if length waveform > 1 then mean_channels waveform else waveform)
      in waveform)"

definition upload_voice ::
  "'h runtime \<Rightarrow> config \<Rightarrow> 'h server \<Rightarrow> upload_file \<Rightarrow> string
     \<Rightarrow> (http_error + upload_ok) \<times> 'h server" where
  "upload_voice rt cfg st audio name =
     (case filename audio of
        None \<Rightarrow> (Inl \<lparr> status_code = 400, detail = ''No audio file provided'' \<rparr>, st)
      | Some fname \<Rightarrow>
          if fname = '''' then
            (Inl \<lparr> status_code = 400, detail = ''No audio file provided'' \<rparr>, st)
          else
            let safe_name = safe_name_of name in
            if safe_name = '''' then
              (Inl \<lparr> status_code = 400, detail = ''Invalid voice name'' \<rparr>, st)
            else
              let suffix = lower (path_suffix (Path fname)) in
              if suffix \<notin> set [''.wav'', ''.mp3'', ''.ogg'', ''.flac''] then
                (Inl \<lparr> status_code = 400,
                       detail = ''Unsupported audio format. Use WAV, MP3, OGG, or FLAC.'' \<rparr>, st)
              else
                (case get_voice_samples_path cfg st of (voices_path, st1) \<Rightarrow>
                   let output_path = path_join voices_path (safe_name @ ''.wav'') in
                   (case ta_load rt suffix (content audio) of
                      Inl e \<Rightarrow>
                        (Inl \<lparr> status_code = 500, detail = e \<rparr>,
                         emit (Log ''error'' (''Failed to upload voice: '' @ e)) st1)
                    | Inr (waveform, sample_rate) \<Rightarrow>
                        let waveform = normalize_waveform rt waveform sample_rate;
                            st2 = emit (SaveFile (path_str output_path)) st1
                        in (case ta_save_file rt (path_str output_path) waveform 24000 of
                              Some e \<Rightarrow>
                                (Inl \<lparr> status_code = 500, detail = e \<rparr>,
                                 emit (Log ''error'' (''Failed to upload voice: '' @ e)) st2)
                            | None \<Rightarrow>
                                (Inr \<lparr> up_success = True, up_voice_id = safe_name,
                                       up_path = path_str output_path \<rparr>,
                                 st2\<lparr> files := write_file (cwd cfg) (files st2) output_path
                                                   (AudioFile waveform 24000) \<rparr>)))))"

subsection \<open>Delete\<close>




section \<open>Synthesis\<close>

text \<open>
  A request body. Each field is optional; a field that is present carries a value of
  the type the interface documents for it (a string or a number).
\<close>

record request =
  req_input :: "string option"
  req_text :: "string option"
  req_voice :: "string option"
  req_exaggeration :: "real option"
  req_cfg_weight :: "real option"
  req_model :: "string option"
  req_speed :: "real option"
  req_response_format :: "string option"

definition truthy :: "string option \<Rightarrow> bool" where
  "truthy x = (case x of None \<Rightarrow> False | Some s \<Rightarrow> s \<noteq> '''')"

definition py_or :: "string option \<Rightarrow> string option \<Rightarrow> string option" where
  "py_or a b = (if truthy a then a else b)"

definition get_or :: "'a option \<Rightarrow> 'a \<Rightarrow> 'a" where
  "get_or x d = (case x of None \<Rightarrow> d | Some v \<Rightarrow> v)"

record audio_response =
  body :: bytes
  media_type :: string
  headers :: "(string \<times> string) list"

text \<open>The loop of both synthesis endpoints over the extensions: the first candidate
  that exists becomes the reference audio.\<close>

fun voice_prompt_loop ::
  "config \<Rightarrow> ppath \<Rightarrow> string \<Rightarrow> string list \<Rightarrow> 'h server
     \<Rightarrow> string option \<times> 'h server" where
  "voice_prompt_loop cfg voices_path vid [] st = (None, st)"
| "voice_prompt_loop cfg voices_path vid (ext # exts) st =
     (let voice_file = path_join voices_path (vid @ ext);
          st1 = emit (Exists (path_str voice_file)) st
      in if file_exists (cwd cfg) (files st1) voice_file then (Some (path_str voice_file), st1)
         else voice_prompt_loop cfg voices_path vid exts st1)"

definition resolve_prompt ::
  "config \<Rightarrow> 'h server \<Rightarrow> string \<Rightarrow> string option \<times> 'h server" where
  "resolve_prompt cfg st vid =
     (if vid \<noteq> ''default'' then
        (case get_voice_samples_path cfg st of (voices_path, st1) \<Rightarrow>
           voice_prompt_loop cfg voices_path vid [''.wav'', ''.mp3''] st1)
      else (None, st))"

text \<open>The body of the \<^verbatim>\<open>try\<close> block of \<^verbatim>\<open>synthesize\<close>; \<open>Inl e\<close> is an exception raised
  inside it.\<close>

definition synthesize_try ::
  "'h runtime \<Rightarrow> config \<Rightarrow> 'h server \<Rightarrow> string \<Rightarrow> string \<Rightarrow> real \<Rightarrow> real
     \<Rightarrow> (string + audio_response) \<times> 'h server" where
  "synthesize_try rt cfg st text vid exag cfgw =
     (case get_model rt cfg st of
        (Inl e, st1) \<Rightarrow> (Inl e, st1)
      | (Inr tts_model, st1) \<Rightarrow>
          (case resolve_prompt cfg st1 vid of (prompt, st2) \<Rightarrow>
             let st3 = emit (Log ''info'' (''Synthesizing text with voice '' @ [CHR 0x27] @ vid
                               @ [CHR 0x27] @ '' (prompt: '' @ str_opt prompt @ '')'')) st2;
                 call = (if truthy prompt
                         then \<lparr> gen_text = text, audio_prompt_path = prompt,
                                exaggeration = Some exag, cfg_weight = Some cfgw \<rparr>
                         else \<lparr> gen_text = text, audio_prompt_path = None,
                                exaggeration = Some exag, cfg_weight = Some cfgw \<rparr>);
                 st4 = emit (Generate call) st3
             in (case generate rt tts_model (files st4) call of
                   Inl e \<Rightarrow> (Inl e, st4)
                 | Inr wav \<Rightarrow>
                     (case ta_save_buffer rt ''wav'' wav (model_sr rt tts_model) of
                        Inl e \<Rightarrow> (Inl e, st4)
                      | Inr buffer \<Rightarrow>
                          (Inr \<lparr> body = buffer, media_type = ''audio/wav'',
                                 headers = [(''Content-Disposition'',
                                             ''inline; filename=speech.wav'')] \<rparr>, st4)))))"

definition synthesize ::
  "'h runtime \<Rightarrow> config \<Rightarrow> 'h server \<Rightarrow> request \<Rightarrow> (http_error + audio_response) \<times> 'h server" where
  "synthesize rt cfg st request =
     (let text = py_or (req_input request) (req_text request);
          vid = get_or (req_voice request) ''default'';
          exag = get_or (req_exaggeration request) 0.5;
          cfgw = get_or (req_cfg_weight request) 0.5
      in if \<not> truthy text then
           (Inl \<lparr> status_code = 400, detail = ''No text provided'' \<rparr>, st)
         else if length (get_or text '''') > 4096 then
           (Inl \<lparr> status_code = 400, detail = ''Text too long (max 4096 characters)'' \<rparr>, st)
         else
           (case synthesize_try rt cfg st (get_or text '''') vid exag cfgw of
              (Inr resp, st1) \<Rightarrow> (Inr resp, st1)
            | (Inl e, st1) \<Rightarrow>
                (Inl \<lparr> status_code = 500, detail = e \<rparr>,
                 emit (Log ''error'' (''Synthesis error: '' @ e)) st1)))"

text \<open>The format ladder of the compatible endpoint: only the \<^verbatim>\<open>mp3\<close> branch catches
  the encoder's exception.\<close>

definition encode_response ::
  "'h runtime \<Rightarrow> string \<Rightarrow> waveform \<Rightarrow> nat \<Rightarrow> string + (bytes \<times> string)" where
  "encode_response rt response_format wav sr =
     (if response_format = ''mp3'' then
        (case ta_save_buffer rt ''mp3'' wav sr of
           Inr buffer \<Rightarrow> Inr (buffer, ''audio/mpeg'')
         | Inl e \<Rightarrow>
             (case ta_save_buffer rt ''wav'' wav sr of
                Inr buffer \<Rightarrow> Inr (buffer, ''audio/wav'')
              | Inl e' \<Rightarrow> Inl e'))
      else if response_format = ''opus'' then
        (case ta_save_buffer rt ''ogg'' wav sr of
           Inr buffer \<Rightarrow> Inr (buffer, ''audio/ogg'') | Inl e \<Rightarrow> Inl e)
      else if response_format = ''aac'' then
        (case ta_save_buffer rt ''wav'' wav sr of
           Inr buffer \<Rightarrow> Inr (buffer, ''audio/wav'') | Inl e \<Rightarrow> Inl e)
      else if response_format = ''flac'' then
        (case ta_save_buffer rt ''flac'' wav sr of
           Inr buffer \<Rightarrow> Inr (buffer, ''audio/flac'') | Inl e \<Rightarrow> Inl e)
      else
        (case ta_save_buffer rt ''wav'' wav sr of
           Inr buffer \<Rightarrow> Inr (buffer, ''audio/wav'') | Inl e \<Rightarrow> Inl e))"

definition openai_try ::
  "'h runtime \<Rightarrow> config \<Rightarrow> 'h server \<Rightarrow> string \<Rightarrow> string \<Rightarrow> string
     \<Rightarrow> (string + audio_response) \<times> 'h server" where
  "openai_try rt cfg st text voice response_format =
     (case get_model rt cfg st of
        (Inl e, st1) \<Rightarrow> (Inl e, st1)
      | (Inr tts_model, st1) \<Rightarrow>
          (case resolve_prompt cfg st1 voice of (prompt, st2) \<Rightarrow>
             let st3 = emit (Log ''info'' (''OpenAI-compatible synthesis: voice='' @ [CHR 0x27]
                               @ voice @ [CHR 0x27] @ '', format='' @ [CHR 0x27]
                               @ response_format @ [CHR 0x27])) st2;
                 call = (if truthy prompt
                         then \<lparr> gen_text = text, audio_prompt_path = prompt,
                                exaggeration = None, cfg_weight = None \<rparr>
                         else \<lparr> gen_text = text, audio_prompt_path = None,
                                exaggeration = None, cfg_weight = None \<rparr>);
                 st4 = emit (Generate call) st3
             in (case generate rt tts_model (files st4) call of
                   Inl e \<Rightarrow> (Inl e, st4)
                 | Inr wav \<Rightarrow>
                     (case encode_response rt response_format wav (model_sr rt tts_model) of
                        Inl e \<Rightarrow> (Inl e, st4)
                      | Inr (buffer, content_type) \<Rightarrow>
                          (Inr \<lparr> body = buffer, media_type = content_type, headers = [] \<rparr>,
                           st4)))))"

definition openai_compatible_synthesize ::
  "'h runtime \<Rightarrow> config \<Rightarrow> 'h server \<Rightarrow> request \<Rightarrow> (http_error + audio_response) \<times> 'h server" where
  "openai_compatible_synthesize rt cfg st request =
     (let text = req_input request;
          voice = get_or (req_voice request) ''default'';
          response_format = get_or (req_response_format request) ''mp3''
      in if \<not> truthy text then
           (Inl \<lparr> status_code = 400, detail = ''No input text provided'' \<rparr>, st)
         else if length (get_or text '''') > 4096 then
           (Inl \<lparr> status_code = 400, detail = ''Text too long (max 4096 characters)'' \<rparr>, st)
         else
           (case openai_try rt cfg st (get_or text '''') voice response_format of
              (Inr resp, st1) \<Rightarrow> (Inr resp, st1)
            | (Inl e, st1) \<Rightarrow>
                (Inl \<lparr> status_code = 500, detail = e \<rparr>,
                 emit (Log ''error'' (''OpenAI-compatible synthesis error: '' @ e)) st1)))"

section \<open>Vocabulary of the properties\<close>

text \<open>The two synthesis surfaces, the text each one reads from a request, and the
  HTTP status of a result (a returned response is a 200).\<close>

datatype surface = Native | OpenAI

definition request_text :: "surface \<Rightarrow> request \<Rightarrow> string option" where
  "request_text s r =
     (case s of Native \<Rightarrow> py_or (req_input r) (req_text r) | OpenAI \<Rightarrow> req_input r)"

definition serve ::
  "surface \<Rightarrow> 'h runtime \<Rightarrow> config \<Rightarrow> 'h server \<Rightarrow> request
     \<Rightarrow> (http_error + audio_response) \<times> 'h server" where
  "serve s rt cfg st r =
     (case s of Native \<Rightarrow> synthesize rt cfg st r
      | OpenAI \<Rightarrow> openai_compatible_synthesize rt cfg st r)"

definition status_of :: "http_error + 'a \<Rightarrow> nat" where
  "status_of res = (case res of Inl e \<Rightarrow> status_code e | Inr x \<Rightarrow> 200)"

definition text_rejected :: "string option \<Rightarrow> bool" where
  "text_rejected t = (case t of None \<Rightarrow> True | Some s \<Rightarrow> s = '''' \<or> 4096 < length s)"

text \<open>The voice directory, the path a voice id and an extension are looked up under,
  and whether a path names a file of the store.\<close>

definition voices_dir :: "config \<Rightarrow> ppath" where
  "voices_dir cfg = Path (VOICE_SAMPLES_DIR cfg)"

definition candidate :: "config \<Rightarrow> string \<Rightarrow> string \<Rightarrow> ppath" where
  "candidate cfg vid ext = path_join (voices_dir cfg) (vid @ ext)"

definition has_file :: "config \<Rightarrow> 'h server \<Rightarrow> ppath \<Rightarrow> bool" where
  "has_file cfg st p = file_exists (cwd cfg) (files st) p"

text \<open>The engine call of either endpoint for a text and a resolved reference, and the
  handler of the \<^verbatim>\<open>except\<close> clause shared by both endpoints.\<close>

definition native_call :: "string \<Rightarrow> string option \<Rightarrow> real \<Rightarrow> real \<Rightarrow> gen_call" where
  "native_call text prompt exag cfgw =
     \<lparr> gen_text = text, audio_prompt_path = (if truthy prompt then prompt else None),
       exaggeration = Some exag, cfg_weight = Some cfgw \<rparr>"

definition openai_call :: "string \<Rightarrow> string option \<Rightarrow> gen_call" where
  "openai_call text prompt =
     \<lparr> gen_text = text, audio_prompt_path = (if truthy prompt then prompt else None),
       exaggeration = None, cfg_weight = None \<rparr>"

definition on_exception ::
  "string \<Rightarrow> (string + 'a) \<times> 'h server \<Rightarrow> (http_error + 'a) \<times> 'h server" where
  "on_exception prefix r =
     (case r of
        (Inr resp, st1) \<Rightarrow> (Inr resp, st1)
      | (Inl e, st1) \<Rightarrow>
          (Inl \<lparr> status_code = 500, detail = e \<rparr>, emit (Log ''error'' (prefix @ e)) st1))"

text \<open>The state after the three log lines that open the startup hook.\<close>

definition startup_logged :: "config \<Rightarrow> 'h server \<Rightarrow> 'h server" where
  "startup_logged cfg st =
     emit (Log ''info'' (''Device preference: '' @ CHATTERBOX_DEVICE cfg))
       (emit (Log ''info'' (''Voice samples directory: '' @ VOICE_SAMPLES_DIR cfg))
          (emit (Log ''info'' ''Starting Chatterbox TTS Server...'') st))"

text \<open>\<open>n\<close> calls of \<^verbatim>\<open>get_model\<close> in sequence, with their results in order.\<close>

fun get_model_calls ::
  "nat \<Rightarrow> 'h runtime \<Rightarrow> config \<Rightarrow> 'h server \<Rightarrow> (string + 'h) list \<times> 'h server" where
  "get_model_calls 0 rt cfg st = ([], st)"
| "get_model_calls (Suc n) rt cfg st =
     (case get_model rt cfg st of (r, st1) \<Rightarrow>
        (case get_model_calls n rt cfg st1 of (rs, st2) \<Rightarrow> (r # rs, st2)))"

text \<open>The engine calls on a trace, a call without its tuning arguments, and the trace
  with log lines dropped and tuning arguments blanked.\<close>

definition calls_of :: "event \<Rightarrow> gen_call list" where
  "calls_of e = (case e of Generate c \<Rightarrow> [c] | _ \<Rightarrow> [])"

definition engine_calls :: "'h server \<Rightarrow> gen_call list" where
  "engine_calls st = concat (map calls_of (trace st))"

definition untuned :: "gen_call \<Rightarrow> gen_call" where
  "untuned c = c\<lparr> exaggeration := None, cfg_weight := None \<rparr>"

definition neutral_event :: "event \<Rightarrow> event list" where
  "neutral_event e =
     (case e of Log l m \<Rightarrow> [] | Generate c \<Rightarrow> [Generate (untuned c)] | _ \<Rightarrow> [e])"

definition footprint :: "'h server \<Rightarrow> event list" where
  "footprint st = concat (map neutral_event (trace st))"


section \<open>Concrete inputs\<close>

text \<open>A runtime whose first model load fails and whose later loads succeed, with a
  WAV encoder only; a configuration; the server as the process starts it.\<close>

definition demo_runtime :: "nat runtime" where
  "demo_runtime =
     \<lparr> cuda_available = False, mps_available = False,
       from_pretrained = (\<lambda>n dev. if n = 0 then Inl ''out of memory'' else Inr 1),
       model_sr = (\<lambda>m. 24000),
       generate = (\<lambda>m fs call. Inr [[0, 0]]),
       ta_save_buffer = (\<lambda>fmt wav sr. if fmt = ''wav'' then Inr [82, 73, 70, 70]
                                        else Inl (''no encoder for '' @ fmt)),
       ta_save_file = (\<lambda>p wav sr. None),
       ta_load = (\<lambda>suffix content. Inr ([[1, 3], [3, 5]], 48000)),
       resample_channel = (\<lambda>orig new ch. ch),
       str_title = (\<lambda>s. s) \<rparr>"

definition demo_config :: config where
  "demo_config =
     \<lparr> CHATTERBOX_DEVICE = ''auto'', VOICE_SAMPLES_DIR = ''/data/voices'', cwd = [''srv''] \<rparr>"

definition fresh_server :: "nat server" where
  "fresh_server = \<lparr> model = None, device = ''cpu'', files = [], trace = [] \<rparr>"

definition input_request :: "string \<Rightarrow> request" where
  "input_request t =
     \<lparr> req_input = Some t, req_text = None, req_voice = None, req_exaggeration = None,
       req_cfg_weight = None, req_model = None, req_speed = None,
       req_response_format = None \<rparr>"

definition shared_store :: file_store where
  "shared_store =
     [([''data'', ''voices'', ''b.mp3''], RawFile [2]),
      ([''data'', ''voices'', ''a.wav''], RawFile [1]),
      ([''data'', ''notes.txt''], RawFile [3]),
      ([''data'', ''voices'', ''a.mp3''], RawFile [4])]"

definition stocked_server :: "nat server" where
  "stocked_server = \<lparr> model = Some 1, device = ''cpu'', files = shared_store, trace = [] \<rparr>"

definition format_request :: "string \<Rightarrow> request" where
  "format_request f = (input_request ''hello'')\<lparr> req_response_format := Some f \<rparr>"

definition plain_server :: "nat server" where
  "plain_server =
     \<lparr> model = None, device = ''cpu'',
       files = [([''data'', ''voices'', ''b.mp3''], RawFile [2]),
                ([''data'', ''voices'', ''readme.txt''], RawFile [5]),
                ([''data'', ''voices'', ''a.wav''], RawFile [1])],
       trace = [] \<rparr>"

definition tuned_request :: "real \<Rightarrow> request" where
  "tuned_request x = (input_request ''hello'')\<lparr> req_exaggeration := Some x \<rparr>"

definition demo_upload :: upload_file where
  "demo_upload = \<lparr> filename = Some ''sample.WAV'', content = [1, 2, 3] \<rparr>"


section \<open>Text validation\<close>

lemma synthesize_verdict:
  "status_of (fst (synthesize rt cfg st r)) = 400 \<longleftrightarrow> text_rejected (request_text Native r)"
  by (auto simp: synthesize_def status_of_def text_rejected_def request_text_def Let_def
        truthy_def get_or_def
      split: option.splits sum.splits prod.splits)

lemma openai_verdict:
  "status_of (fst (openai_compatible_synthesize rt cfg st r)) = 400
     \<longleftrightarrow> text_rejected (request_text OpenAI r)"
  by (auto simp: openai_compatible_synthesize_def status_of_def text_rejected_def
        request_text_def Let_def truthy_def get_or_def
      split: option.splits sum.splits prod.splits)

lemma synthesize_rejected_state:
  "text_rejected (request_text Native r) \<Longrightarrow> snd (synthesize rt cfg st r) = st"
  by (auto simp: synthesize_def text_rejected_def request_text_def Let_def truthy_def get_or_def
      split: option.splits)

lemma openai_rejected_state:
  "text_rejected (request_text OpenAI r)
     \<Longrightarrow> snd (openai_compatible_synthesize rt cfg st r) = st"
  by (auto simp: openai_compatible_synthesize_def text_rejected_def request_text_def Let_def
        truthy_def get_or_def
      split: option.splits)

text \<open>
  C4. On both surfaces a request is answered with status 400 exactly when its text is
  missing, empty or longer than 4096 characters, and then the server state is left as
  it was: the model is neither loaded nor invoked. A text of 4096 characters is
  therefore not rejected and one of 4097 is, on either surface.
\<close>

theorem text_validation:
  "(status_of (fst (serve s rt cfg st r)) = 400 \<longleftrightarrow> text_rejected (request_text s r)) \<and>
   (text_rejected (request_text s r) \<longrightarrow> snd (serve s rt cfg st r) = st)"
  by (cases s)
     (simp_all add: serve_def synthesize_verdict openai_verdict
        synthesize_rejected_state openai_rejected_state)

theorem text_validation_witness:
  "text_rejected (request_text OpenAI (input_request (replicate 4097 CHR ''a''))) \<and>
   status_of (fst (serve OpenAI demo_runtime demo_config fresh_server
                     (input_request (replicate 4097 CHR ''a'')))) = 400 \<and>
   snd (serve OpenAI demo_runtime demo_config fresh_server
          (input_request (replicate 4097 CHR ''a''))) = fresh_server \<and>
   \<not> text_rejected (request_text Native (input_request (replicate 4096 CHR ''a''))) \<and>
   status_of (fst (serve Native demo_runtime demo_config fresh_server
                     (input_request (replicate 4096 CHR ''a'')))) \<noteq> 400"
proof -
  have long: "text_rejected (request_text OpenAI (input_request (replicate 4097 CHR ''a'')))"
    by (simp add: text_rejected_def request_text_def input_request_def)
  have ok: "\<not> text_rejected (request_text Native (input_request (replicate 4096 CHR ''a'')))"
    by (simp add: text_rejected_def request_text_def input_request_def py_or_def truthy_def)
  show ?thesis
    using long ok
      text_validation [of OpenAI demo_runtime demo_config fresh_server
        "input_request (replicate 4097 CHR ''a'')"]
      text_validation [of Native demo_runtime demo_config fresh_server
        "input_request (replicate 4096 CHR ''a'')"]
    by simp
qed

section \<open>Events and traces\<close>

lemma emit_simps [simp]:
  "model (emit e st) = model st" "device (emit e st) = device st"
  "files (emit e st) = files st" "trace (emit e st) = trace st @ [e]"
  by (simp_all add: emit_def)

lemma is_fs_event_simps [simp]:
  "\<not> is_fs_event (Log l m)" "\<not> is_fs_event (Load d)" "\<not> is_fs_event (Generate c)"
  "is_fs_event (Mkdir p)" "is_fs_event (Exists p)" "is_fs_event (Glob p x)"
  "is_fs_event (Unlink p)" "is_fs_event (SaveFile p)"
  by (simp_all add: is_fs_event_def)

lemma is_load_simps [simp]:
  "\<not> is_load (Log l m)" "is_load (Load d)" "\<not> is_load (Generate c)"
  "\<not> is_load (Mkdir p)" "\<not> is_load (Exists p)" "\<not> is_load (Glob p x)"
  "\<not> is_load (Unlink p)" "\<not> is_load (SaveFile p)"
  by (simp_all add: is_load_def)

lemma load_count_emit [simp]:
  "load_count (emit e st) = (if is_load e then Suc (load_count st) else load_count st)"
  by (simp add: load_count_def)

lemma load_count_update [simp]:
  "load_count (st\<lparr> device := d \<rparr>) = load_count st"
  "load_count (st\<lparr> model := m \<rparr>) = load_count st"
  "load_count (st\<lparr> files := f \<rparr>) = load_count st"
  by (simp_all add: load_count_def)

section \<open>Loading the model\<close>

lemma get_device_state: "snd (get_device rt cfg st) = st\<lparr> device := fst (get_device rt cfg st) \<rparr>"
  by (simp add: get_device_def Let_def)

lemma get_device_fst: "fst (get_device rt cfg st) = fst (get_device rt cfg st')"
  by (simp add: get_device_def Let_def)

lemma get_model_loaded: "model st = Some m \<Longrightarrow> get_model rt cfg st = (Inr m, st)"
  by (simp add: get_model_def)

lemma get_model_unloaded:
  assumes "model st = None"
  shows "get_model rt cfg st =
     (let dev = fst (get_device rt cfg st);
          st3 = emit (Load dev)
                  (emit (Log ''info'' (''Loading Chatterbox model on '' @ dev @ ''...''))
                     (st\<lparr> device := dev \<rparr>))
      in case from_pretrained rt (load_count st) dev of
           Inl e \<Rightarrow> (Inl e, st3)
         | Inr m \<Rightarrow> (Inr m, emit (Log ''info'' ''Chatterbox model loaded successfully'')
                                (st3\<lparr> model := Some m \<rparr>)))"
proof -
  obtain dev st1 where d: "get_device rt cfg st = (dev, st1)"
    by (cases "get_device rt cfg st")
  then have st1: "st1 = st\<lparr> device := dev \<rparr>"
    using get_device_state [of rt cfg st] by simp
  show ?thesis
    using assms d by (simp add: get_model_def Let_def st1)
qed

lemma get_model_files [simp]: "files (snd (get_model rt cfg st)) = files st"
proof (cases "model st")
  case None
  then show ?thesis
    by (cases "from_pretrained rt (load_count st) (fst (get_device rt cfg st))")
       (simp_all add: get_model_unloaded Let_def)
next
  case (Some m)
  then show ?thesis by (simp add: get_model_loaded)
qed


section \<open>Listing the voices\<close>

lemma endswith_same_length:
  "endswith n a \<Longrightarrow> endswith n b \<Longrightarrow> length a = length b \<Longrightarrow> a = b"
  by (simp add: endswith_def)

lemma filter_disjoint_length:
  "(\<And>x. x \<in> set xs \<Longrightarrow> \<not> (P x \<and> Q x)) \<Longrightarrow>
   length (filter P xs) + length (filter Q xs) = length (filter (\<lambda>x. P x \<or> Q x) xs)"
  by (induction xs) auto

lemma voice_id_custom [simp]:
  "voice_id (custom_voice rt (d\<lparr> parts := parts d @ [n] \<rparr>)) = name_stem n"
  by (simp add: custom_voice_def path_stem_def path_name_def)

lemma list_voice_samples_ids:
  "map voice_id (fst (list_voice_samples rt cfg st)) =
     ''default'' #
     map name_stem (filter (\<lambda>n. endswith n ''.wav'') (dir_names (cwd cfg) (files st) (voices_dir cfg))) @
     map name_stem (filter (\<lambda>n. endswith n ''.mp3'') (dir_names (cwd cfg) (files st) (voices_dir cfg)))"
  by (simp add: list_voice_samples_def get_voice_samples_path_def Let_def glob_ext_def
        voices_dir_def default_voice_def comp_def)

lemma stocked_names:
  "dir_names (cwd demo_config) (files stocked_server) (voices_dir demo_config) =
     [''b.mp3'', ''a.wav'', ''a.mp3'']"
  by (simp add: dir_names_def demo_config_def stocked_server_def shared_store_def voices_dir_def
        locate_def Path_def path_root_def)

lemma stocked_ids:
  "map voice_id (fst (list_voice_samples demo_runtime demo_config stocked_server)) =
     [''default'', ''a'', ''b'', ''a'']"
  by (simp add: list_voice_samples_ids stocked_names endswith_def name_stem_def)

text \<open>
  C3. The listing starts with the built-in \<^verbatim>\<open>default\<close> entry, followed by one entry for
  each \<^verbatim>\<open>.wav\<close> file of the directory in enumeration order and then one entry for each
  \<^verbatim>\<open>.mp3\<close> file in enumeration order; the id of an entry is the stem of its file name.
  Every such file has its own entry: nothing is merged, and the files are left as they
  were.
\<close>

theorem voice_listing:
  "map voice_id (fst (list_voice_samples rt cfg st)) =
     ''default'' #
     map name_stem (filter (\<lambda>n. endswith n ''.wav'')
                      (dir_names (cwd cfg) (files st) (voices_dir cfg))) @
     map name_stem (filter (\<lambda>n. endswith n ''.mp3'')
                      (dir_names (cwd cfg) (files st) (voices_dir cfg))) \<and>
   hd (fst (list_voice_samples rt cfg st)) = default_voice \<and>
   length (fst (list_voice_samples rt cfg st)) =
     1 + length (filter (\<lambda>n. endswith n ''.wav'' \<or> endswith n ''.mp3'')
                   (dir_names (cwd cfg) (files st) (voices_dir cfg))) \<and>
   files (snd (list_voice_samples rt cfg st)) = files st"
proof (intro conjI)
  let ?names = "dir_names (cwd cfg) (files st) (voices_dir cfg)"
  have disj: "\<not> (endswith n ''.wav'' \<and> endswith n ''.mp3'')" for n
    using endswith_same_length [of n "''.wav''" "''.mp3''"] by auto
  show "map voice_id (fst (list_voice_samples rt cfg st)) =
     ''default'' #
     map name_stem (filter (\<lambda>n. endswith n ''.wav'') ?names) @
     map name_stem (filter (\<lambda>n. endswith n ''.mp3'') ?names)"
    by (rule list_voice_samples_ids)
  show "hd (fst (list_voice_samples rt cfg st)) = default_voice"
    by (simp add: list_voice_samples_def get_voice_samples_path_def Let_def)
  have "length (fst (list_voice_samples rt cfg st)) =
          1 + (length (filter (\<lambda>n. endswith n ''.wav'') ?names) +
               length (filter (\<lambda>n. endswith n ''.mp3'') ?names))"
    by (simp add: list_voice_samples_def get_voice_samples_path_def Let_def glob_ext_def
          voices_dir_def)
  then show "length (fst (list_voice_samples rt cfg st)) =
       1 + length (filter (\<lambda>n. endswith n ''.wav'' \<or> endswith n ''.mp3'') ?names)"
    using filter_disjoint_length [of ?names "\<lambda>n. endswith n ''.wav''" "\<lambda>n. endswith n ''.mp3''"] disj
    by simp
  show "files (snd (list_voice_samples rt cfg st)) = files st"
    by (simp add: list_voice_samples_def get_voice_samples_path_def Let_def)
qed

theorem voice_listing_witness:
  "map voice_id (fst (list_voice_samples demo_runtime demo_config plain_server)) =
     [''default'', ''a'', ''b''] \<and>
   length (fst (list_voice_samples demo_runtime demo_config plain_server)) = 3"
proof -
  have n: "dir_names (cwd demo_config) (files plain_server) (voices_dir demo_config) =
             [''b.mp3'', ''readme.txt'', ''a.wav'']"
    by (simp add: dir_names_def demo_config_def plain_server_def voices_dir_def
          locate_def Path_def path_root_def)
  show ?thesis
    using voice_listing [of demo_runtime demo_config plain_server]
    by (simp add: n endswith_def name_stem_def)
qed

text \<open>Two files with the stem \<^verbatim>\<open>a\<close> give two entries with the id \<^verbatim>\<open>a\<close>, and the
  \<^verbatim>\<open>.mp3\<close> file enumerated first is listed after the \<^verbatim>\<open>.wav\<close> file.\<close>

theorem voice_listing_duplicates:
  "map voice_id (fst (list_voice_samples demo_runtime demo_config stocked_server)) =
     [''default'', ''a'', ''b'', ''a''] \<and>
   \<not> distinct (map voice_id (fst (list_voice_samples demo_runtime demo_config stocked_server)))"
  by (simp add: stocked_ids)

section \<open>Deleting a voice\<close>















section \<open>Resolving a voice\<close>

lemma prompt_loop_hit:
  "file_exists (cwd cfg) (files st) (path_join vp (vid @ ext)) \<Longrightarrow>
   voice_prompt_loop cfg vp vid (ext # exts) st =
     (Some (path_str (path_join vp (vid @ ext))),
      emit (Exists (path_str (path_join vp (vid @ ext)))) st)"
  by (simp add: Let_def)

lemma prompt_loop_miss:
  "\<not> file_exists (cwd cfg) (files st) (path_join vp (vid @ ext)) \<Longrightarrow>
   voice_prompt_loop cfg vp vid (ext # exts) st =
     voice_prompt_loop cfg vp vid exts (emit (Exists (path_str (path_join vp (vid @ ext)))) st)"
  by (simp add: Let_def)

lemma prompt_loop_files [simp]: "files (snd (voice_prompt_loop cfg vp vid exts st)) = files st"
  by (induction exts arbitrary: st) (simp_all add: Let_def)

lemma prompt_loop_model [simp]: "model (snd (voice_prompt_loop cfg vp vid exts st)) = model st"
  by (induction exts arbitrary: st) (simp_all add: Let_def)

lemma prompt_loop_device [simp]: "device (snd (voice_prompt_loop cfg vp vid exts st)) = device st"
  by (induction exts arbitrary: st) (simp_all add: Let_def)

lemmas resolve_unfold = resolve_prompt_def get_voice_samples_path_def has_file_def
        candidate_def voices_dir_def Let_def prompt_loop_hit prompt_loop_miss

lemma resolve_prompt_default [simp]: "resolve_prompt cfg st ''default'' = (None, st)"
  by (simp add: resolve_prompt_def)

lemma resolve_prompt_files [simp]: "files (snd (resolve_prompt cfg st vid)) = files st"
  by (simp add: resolve_prompt_def get_voice_samples_path_def Let_def
      del: voice_prompt_loop.simps)

lemma resolve_prompt_model [simp]: "model (snd (resolve_prompt cfg st vid)) = model st"
  by (simp add: resolve_prompt_def get_voice_samples_path_def Let_def
      del: voice_prompt_loop.simps)

lemma resolve_prompt_device [simp]: "device (snd (resolve_prompt cfg st vid)) = device st"
  by (simp add: resolve_prompt_def get_voice_samples_path_def Let_def
      del: voice_prompt_loop.simps)


lemma resolve_prompt_wav:
  assumes "vid \<noteq> ''default''" "has_file cfg st (candidate cfg vid ''.wav'')"
  shows "fst (resolve_prompt cfg st vid) = Some (path_str (candidate cfg vid ''.wav''))"
  using assms by (simp add: resolve_unfold del: voice_prompt_loop.simps(2))



section \<open>The try blocks\<close>

lemma synthesize_try_unloaded:
  "get_model rt cfg st = (Inl e, st1) \<Longrightarrow> synthesize_try rt cfg st t v x c = (Inl e, st1)"
  by (simp add: synthesize_try_def)

lemma synthesize_try_loaded:
  assumes "get_model rt cfg st = (Inr m, st1)" "resolve_prompt cfg st1 v = (p, st2)"
  shows "\<exists>msg. snd (synthesize_try rt cfg st t v x c) =
           emit (Generate (native_call t p x c)) (emit (Log ''info'' msg) st2)"
    and "fst (synthesize_try rt cfg st t v x c) =
           (case generate rt m (files st2) (native_call t p x c) of
              Inl e \<Rightarrow> Inl e
            | Inr wav \<Rightarrow>
                (case ta_save_buffer rt ''wav'' wav (model_sr rt m) of
                   Inl e \<Rightarrow> Inl e
                 | Inr buffer \<Rightarrow>
                     Inr \<lparr> body = buffer, media_type = ''audio/wav'',
                           headers = [(''Content-Disposition'',
                                       ''inline; filename=speech.wav'')] \<rparr>))"
proof -
  have call: "(if truthy p
               then \<lparr> gen_text = t, audio_prompt_path = p,
                      exaggeration = Some x, cfg_weight = Some c \<rparr>
               else \<lparr> gen_text = t, audio_prompt_path = None,
                      exaggeration = Some x, cfg_weight = Some c \<rparr>) = native_call t p x c"
    by (simp add: native_call_def)
  show "\<exists>msg. snd (synthesize_try rt cfg st t v x c) =
           emit (Generate (native_call t p x c)) (emit (Log ''info'' msg) st2)"
    unfolding synthesize_try_def assms prod.case sum.case Let_def call
    by (cases "generate rt m (files st2) (native_call t p x c)";
        cases "ta_save_buffer rt ''wav'' (projr (generate rt m (files st2) (native_call t p x c))) (model_sr rt m)")
       auto
  show "fst (synthesize_try rt cfg st t v x c) =
           (case generate rt m (files st2) (native_call t p x c) of
              Inl e \<Rightarrow> Inl e
            | Inr wav \<Rightarrow>
                (case ta_save_buffer rt ''wav'' wav (model_sr rt m) of
                   Inl e \<Rightarrow> Inl e
                 | Inr buffer \<Rightarrow>
                     Inr \<lparr> body = buffer, media_type = ''audio/wav'',
                           headers = [(''Content-Disposition'',
                                       ''inline; filename=speech.wav'')] \<rparr>))"
    unfolding synthesize_try_def assms prod.case sum.case Let_def call
    by (cases "generate rt m (files st2) (native_call t p x c)";
        cases "ta_save_buffer rt ''wav'' (projr (generate rt m (files st2) (native_call t p x c))) (model_sr rt m)")
       auto
qed

lemma openai_try_unloaded:
  "get_model rt cfg st = (Inl e, st1) \<Longrightarrow> openai_try rt cfg st t v f = (Inl e, st1)"
  by (simp add: openai_try_def)

lemma openai_try_loaded:
  assumes "get_model rt cfg st = (Inr m, st1)" "resolve_prompt cfg st1 v = (p, st2)"
  shows "\<exists>msg. snd (openai_try rt cfg st t v f) =
           emit (Generate (openai_call t p)) (emit (Log ''info'' msg) st2)"
    and "fst (openai_try rt cfg st t v f) =
           (case generate rt m (files st2) (openai_call t p) of
              Inl e \<Rightarrow> Inl e
            | Inr wav \<Rightarrow>
                (case encode_response rt f wav (model_sr rt m) of
                   Inl e \<Rightarrow> Inl e
                 | Inr (buffer, content_type) \<Rightarrow>
                     Inr \<lparr> body = buffer, media_type = content_type, headers = [] \<rparr>))"
proof -
  have call: "(if truthy p
               then \<lparr> gen_text = t, audio_prompt_path = p,
                      exaggeration = None, cfg_weight = None \<rparr>
               else \<lparr> gen_text = t, audio_prompt_path = None,
                      exaggeration = None, cfg_weight = None \<rparr>) = openai_call t p"
    by (simp add: openai_call_def)
  show "\<exists>msg. snd (openai_try rt cfg st t v f) =
           emit (Generate (openai_call t p)) (emit (Log ''info'' msg) st2)"
    unfolding openai_try_def assms prod.case sum.case Let_def call
    by (cases "generate rt m (files st2) (openai_call t p)";
        cases "encode_response rt f (projr (generate rt m (files st2) (openai_call t p))) (model_sr rt m)")
       auto
  show "fst (openai_try rt cfg st t v f) =
           (case generate rt m (files st2) (openai_call t p) of
              Inl e \<Rightarrow> Inl e
            | Inr wav \<Rightarrow>
                (case encode_response rt f wav (model_sr rt m) of
                   Inl e \<Rightarrow> Inl e
                 | Inr (buffer, content_type) \<Rightarrow>
                     Inr \<lparr> body = buffer, media_type = content_type, headers = [] \<rparr>))"
    unfolding openai_try_def assms prod.case sum.case Let_def call
    by (cases "generate rt m (files st2) (openai_call t p)";
        cases "encode_response rt f (projr (generate rt m (files st2) (openai_call t p))) (model_sr rt m)")
       auto
qed

section \<open>Endpoints as validation plus handler\<close>

lemma on_exception_fst:
  "fst (on_exception pre x) =
     (case fst x of Inl e \<Rightarrow> Inl \<lparr> status_code = 500, detail = e \<rparr> | Inr v \<Rightarrow> Inr v)"
  by (cases x; cases "fst x") (auto simp: on_exception_def)

lemma on_exception_snd:
  "snd (on_exception pre x) = snd x \<or> (\<exists>msg. snd (on_exception pre x) = emit (Log ''error'' msg) (snd x))"
  by (cases x; cases "fst x") (auto simp: on_exception_def)

lemma on_exception_fields [simp]:
  "files (snd (on_exception pre x)) = files (snd x)"
  "model (snd (on_exception pre x)) = model (snd x)"
  "device (snd (on_exception pre x)) = device (snd x)"
  using on_exception_snd [of pre x] by auto

lemma on_exception_fs_events [simp]:
  "filter is_fs_event (trace (snd (on_exception pre x))) = filter is_fs_event (trace (snd x))"
  using on_exception_snd [of pre x] by auto

lemma on_exception_status: "status_of (fst (on_exception pre x)) \<noteq> 400"
  by (cases x; cases "fst x") (auto simp: on_exception_def status_of_def)

lemma synthesize_accepted:
  assumes "request_text Native r = Some t" "t \<noteq> ''''" "length t \<le> 4096"
  shows "synthesize rt cfg st r =
           on_exception ''Synthesis error: ''
             (synthesize_try rt cfg st t (get_or (req_voice r) ''default'')
                (get_or (req_exaggeration r) 0.5) (get_or (req_cfg_weight r) 0.5))"
  using assms
  by (simp add: synthesize_def request_text_def Let_def truthy_def get_or_def on_exception_def)

lemma openai_accepted:
  assumes "request_text OpenAI r = Some t" "t \<noteq> ''''" "length t \<le> 4096"
  shows "openai_compatible_synthesize rt cfg st r =
           on_exception ''OpenAI-compatible synthesis error: ''
             (openai_try rt cfg st t (get_or (req_voice r) ''default'')
                (get_or (req_response_format r) ''mp3''))"
  using assms
  by (simp add: openai_compatible_synthesize_def request_text_def Let_def truthy_def get_or_def
        on_exception_def)

lemma text_rejected_cases:
  "text_rejected x \<or> (\<exists>t. x = Some t \<and> t \<noteq> '''' \<and> length t \<le> 4096)"
  by (cases x) (auto simp: text_rejected_def)

lemma synthesize_rejected:
  "text_rejected (request_text Native r) \<Longrightarrow>
   snd (synthesize rt cfg st r) = st \<and> status_of (fst (synthesize rt cfg st r)) = 400"
  by (auto simp: synthesize_def text_rejected_def request_text_def Let_def truthy_def get_or_def
        status_of_def split: option.splits)

lemma openai_rejected:
  "text_rejected (request_text OpenAI r) \<Longrightarrow>
   snd (openai_compatible_synthesize rt cfg st r) = st \<and>
   status_of (fst (openai_compatible_synthesize rt cfg st r)) = 400"
  by (auto simp: openai_compatible_synthesize_def text_rejected_def request_text_def Let_def
        truthy_def get_or_def status_of_def split: option.splits)

lemma request_text_voice_update [simp]:
  "request_text s (r\<lparr> req_voice := v \<rparr>) = request_text s r"
  by (cases s) (simp_all add: request_text_def)

section \<open>The default voice and missing voices\<close>









section \<open>A load that fails\<close>

lemma get_model_unloaded_fst:
  "model st = None \<Longrightarrow>
   fst (get_model rt cfg st) = from_pretrained rt (load_count st) (fst (get_device rt cfg st))"
  by (cases "from_pretrained rt (load_count st) (fst (get_device rt cfg st))")
     (simp_all add: get_model_unloaded Let_def)

lemma get_model_unloaded_count:
  "model st = None \<Longrightarrow> load_count (snd (get_model rt cfg st)) = Suc (load_count st)"
  by (cases "from_pretrained rt (load_count st) (fst (get_device rt cfg st))")
     (simp_all add: get_model_unloaded Let_def)

lemma get_model_unloaded_model:
  "model st = None \<Longrightarrow>
   model (snd (get_model rt cfg st)) =
     (case from_pretrained rt (load_count st) (fst (get_device rt cfg st)) of
        Inl e \<Rightarrow> None | Inr m \<Rightarrow> Some m)"
  by (cases "from_pretrained rt (load_count st) (fst (get_device rt cfg st))")
     (simp_all add: get_model_unloaded Let_def)

lemma get_model_loaded_count:
  "model st = Some m \<Longrightarrow> load_count (snd (get_model rt cfg st)) = load_count st"
  by (simp add: get_model_loaded)

lemma startup_logged_simps [simp]:
  "model (startup_logged cfg st) = model st" "files (startup_logged cfg st) = files st"
  "load_count (startup_logged cfg st) = load_count st"
  by (simp_all add: startup_logged_def)

lemma startup_event_failed:
  assumes "model st = None"
    and "from_pretrained rt (load_count st) (fst (get_device rt cfg st)) = Inl e"
  shows "startup_event rt cfg st =
           emit (Log ''warning'' (''Could not pre-load model: '' @ e @ ''. Will load on first request.''))
             (snd (get_model rt cfg (startup_logged cfg st)))"
proof -
  have dev: "fst (get_device rt cfg (startup_logged cfg st)) = fst (get_device rt cfg st)"
    by (rule get_device_fst)
  have "fst (get_model rt cfg (startup_logged cfg st)) = Inl e"
    using assms by (simp add: get_model_unloaded_fst dev)
  then obtain st4 where "get_model rt cfg (startup_logged cfg st) = (Inl e, st4)"
    by (cases "get_model rt cfg (startup_logged cfg st)") auto
  then show ?thesis
    by (simp add: startup_event_def Let_def startup_logged_def)
qed

lemma serve_load_failed:
  assumes "model st = None"
    and "from_pretrained rt (load_count st) (fst (get_device rt cfg st)) = Inl e"
    and "\<not> text_rejected (request_text s r)"
  shows "fst (serve s rt cfg st r) = Inl \<lparr> status_code = 500, detail = e \<rparr> \<and>
         model (snd (serve s rt cfg st r)) = None"
proof -
  obtain t where t: "request_text s r = Some t" "t \<noteq> ''''" "length t \<le> 4096"
    using text_rejected_cases [of "request_text s r"] assms(3) by blast
  have "fst (get_model rt cfg st) = Inl e"
    using assms(1,2) by (simp add: get_model_unloaded_fst)
  then obtain st1 where g: "get_model rt cfg st = (Inl e, st1)"
    by (cases "get_model rt cfg st") auto
  have m1: "model st1 = None"
    using get_model_unloaded_model [OF assms(1), of rt cfg] assms(2) g by simp
  show ?thesis
  proof (cases s)
    case Native
    show ?thesis
      using t m1 unfolding Native
      by (simp add: serve_def synthesize_accepted synthesize_try_unloaded [OF g] on_exception_fst)
  next
    case OpenAI
    show ?thesis
      using t m1 unfolding OpenAI
      by (simp add: serve_def openai_accepted openai_try_unloaded [OF g] on_exception_fst)
  qed
qed

text \<open>
  C8. When the model is not loaded and the load raises, \<^verbatim>\<open>get_model\<close> reports the
  exception to its caller and the handle stays unloaded, the files untouched; one load
  has been invoked. The next call invokes the loader again and returns what that load
  returns. The startup hook swallows the same failure: it ends with the warning in the
  log and the handle unloaded. A synthesis request that triggers the failing load is
  answered with status 500 and the exception's message, the handle still unloaded.
\<close>

theorem load_failure_retry:
  assumes "model st = None"
    and "from_pretrained rt (load_count st) (fst (get_device rt cfg st)) = Inl e"
  shows "fst (get_model rt cfg st) = Inl e \<and>
         model (snd (get_model rt cfg st)) = None \<and>
         files (snd (get_model rt cfg st)) = files st \<and>
         load_count (snd (get_model rt cfg st)) = Suc (load_count st) \<and>
         fst (get_model rt cfg (snd (get_model rt cfg st))) =
           from_pretrained rt (Suc (load_count st)) (fst (get_device rt cfg st)) \<and>
         load_count (snd (get_model rt cfg (snd (get_model rt cfg st)))) =
           Suc (Suc (load_count st)) \<and>
         model (startup_event rt cfg st) = None \<and>
         files (startup_event rt cfg st) = files st \<and>
         load_count (startup_event rt cfg st) = Suc (load_count st) \<and>
         last (trace (startup_event rt cfg st)) =
           Log ''warning'' (''Could not pre-load model: '' @ e @ ''. Will load on first request.'') \<and>
         (\<not> text_rejected (request_text s r) \<longrightarrow>
            fst (serve s rt cfg st r) = Inl \<lparr> status_code = 500, detail = e \<rparr> \<and>
            model (snd (serve s rt cfg st r)) = None)"
proof -
  let ?st' = "snd (get_model rt cfg st)"
  have m': "model ?st' = None"
    using assms by (simp add: get_model_unloaded_model)
  have c': "load_count ?st' = Suc (load_count st)"
    using assms by (simp add: get_model_unloaded_count)
  have dev: "fst (get_device rt cfg ?st') = fst (get_device rt cfg st)"
    by (rule get_device_fst)
  have devs: "fst (get_device rt cfg (startup_logged cfg st)) = fst (get_device rt cfg st)"
    by (rule get_device_fst)
  have sm: "model (snd (get_model rt cfg (startup_logged cfg st))) = None"
    using assms by (simp add: get_model_unloaded_model devs)
  have sc: "load_count (snd (get_model rt cfg (startup_logged cfg st))) = Suc (load_count st)"
    using assms by (simp add: get_model_unloaded_count)
  have rq: "fst (serve s rt cfg st r) = Inl \<lparr> status_code = 500, detail = e \<rparr> \<and>
            model (snd (serve s rt cfg st r)) = None"
    if "\<not> text_rejected (request_text s r)"
    using serve_load_failed [OF assms that] .
  show ?thesis
    using assms m' c' sm sc rq
    by (simp add: get_model_unloaded_fst get_model_unloaded_count dev startup_event_failed)
qed

theorem load_failure_retry_witness:
  "model fresh_server = None \<and>
   fst (get_model demo_runtime demo_config fresh_server) = Inl ''out of memory'' \<and>
   model (snd (get_model demo_runtime demo_config fresh_server)) = None \<and>
   fst (get_model demo_runtime demo_config (snd (get_model demo_runtime demo_config fresh_server)))
     = Inr 1 \<and>
   model (startup_event demo_runtime demo_config fresh_server) = None \<and>
   fst (serve Native demo_runtime demo_config fresh_server (input_request ''hello'')) =
     Inl \<lparr> status_code = 500, detail = ''out of memory'' \<rparr>"
proof -
  have t: "\<not> text_rejected (request_text Native (input_request ''hello''))"
    by (simp add: text_rejected_def request_text_def input_request_def py_or_def truthy_def)
  have m: "model fresh_server = None"
    by (simp add: fresh_server_def)
  have c: "load_count fresh_server = 0"
    by (simp add: fresh_server_def load_count_def)
  have f: "from_pretrained demo_runtime (load_count fresh_server)
             (fst (get_device demo_runtime demo_config fresh_server)) = Inl ''out of memory''"
    by (simp add: c demo_runtime_def)
  show ?thesis
    using load_failure_retry [OF m f, of Native "input_request ''hello''"] m t
    by (simp add: c demo_runtime_def)
qed

section \<open>Calls in sequence\<close>

text \<open>Calls of \<^verbatim>\<open>get_model\<close> one after the other: once a load has succeeded every
  call returns its handle and no further load is invoked.\<close>

lemma get_model_calls_loaded:
  "model st = Some m \<Longrightarrow>
   get_model_calls n rt cfg st = (replicate n (Inr m), st)"
  by (induction n) (simp_all add: get_model_loaded)

lemma get_model_calls_once:
  assumes "model st = None"
    and "from_pretrained rt (load_count st) (fst (get_device rt cfg st)) = Inr m"
  shows "fst (get_model_calls (Suc n) rt cfg st) = replicate (Suc n) (Inr m)"
    and "load_count (snd (get_model_calls (Suc n) rt cfg st)) = Suc (load_count st)"
proof -
  obtain r st1 where g: "get_model rt cfg st = (r, st1)"
    by (cases "get_model rt cfg st")
  have r: "r = Inr m"
    using get_model_unloaded_fst [OF assms(1), of rt cfg] assms(2) g by simp
  have m1: "model st1 = Some m"
    using get_model_unloaded_model [OF assms(1), of rt cfg] assms(2) g by simp
  have c1: "load_count st1 = Suc (load_count st)"
    using get_model_unloaded_count [OF assms(1), of rt cfg] g by simp
  show "fst (get_model_calls (Suc n) rt cfg st) = replicate (Suc n) (Inr m)"
    by (simp add: g r get_model_calls_loaded [OF m1])
  show "load_count (snd (get_model_calls (Suc n) rt cfg st)) = Suc (load_count st)"
    by (simp add: g get_model_calls_loaded [OF m1] c1)
qed

section \<open>Encoding the response\<close>

lemma format_request_text:
  "request_text OpenAI (format_request f) = Some ''hello''"
  by (simp add: format_request_def input_request_def request_text_def)

lemma stocked_loaded:
  "get_model demo_runtime demo_config stocked_server = (Inr 1, stocked_server)"
  by (simp add: get_model_loaded stocked_server_def)

lemma format_request_response:
  "fst (openai_compatible_synthesize demo_runtime demo_config stocked_server (format_request f)) =
     (case encode_response demo_runtime f [[0, 0]] 24000 of
        Inl e \<Rightarrow> Inl \<lparr> status_code = 500, detail = e \<rparr>
      | Inr (buffer, content_type) \<Rightarrow>
          Inr \<lparr> body = buffer, media_type = content_type, headers = [] \<rparr>)"
proof -
  have g: "generate demo_runtime m fs c = Inr [[0, 0]]" for m fs c
    by (simp add: demo_runtime_def)
  have sr: "model_sr demo_runtime m = 24000" for m
    by (simp add: demo_runtime_def)
  have v: "get_or (req_voice (format_request f)) ''default'' = ''default''"
    "get_or (req_response_format (format_request f)) ''mp3'' = f"
    by (simp_all add: format_request_def input_request_def get_or_def)
  show ?thesis
    by (cases "encode_response demo_runtime f [[0, 0]] 24000")
       (auto simp: openai_accepted [OF format_request_text] on_exception_fst v
          openai_try_loaded(2) [OF stocked_loaded resolve_prompt_default] g sr)
qed

text \<open>
  C2. On a runtime that has a WAV encoder only, the compatible endpoint answers a request
  for \<^verbatim>\<open>opus\<close> or \<^verbatim>\<open>flac\<close> with status 500, while the same request for \<^verbatim>\<open>mp3\<close> or
  \<^verbatim>\<open>aac\<close> is answered with WAV audio: the fallback exists on the \<^verbatim>\<open>mp3\<close> branch only.
\<close>

theorem encoder_failure_status:
  "fst (openai_compatible_synthesize demo_runtime demo_config stocked_server
          (format_request ''opus'')) =
     Inl \<lparr> status_code = 500, detail = ''no encoder for ogg'' \<rparr> \<and>
   fst (openai_compatible_synthesize demo_runtime demo_config stocked_server
          (format_request ''flac'')) =
     Inl \<lparr> status_code = 500, detail = ''no encoder for flac'' \<rparr> \<and>
   fst (openai_compatible_synthesize demo_runtime demo_config stocked_server
          (format_request ''mp3'')) =
     Inr \<lparr> body = [82, 73, 70, 70], media_type = ''audio/wav'', headers = [] \<rparr> \<and>
   fst (openai_compatible_synthesize demo_runtime demo_config stocked_server
          (format_request ''aac'')) =
     Inr \<lparr> body = [82, 73, 70, 70], media_type = ''audio/wav'', headers = [] \<rparr>"
proof -
  have e: "ta_save_buffer demo_runtime fmt w sr =
             (if fmt = ''wav'' then Inr [82, 73, 70, 70] else Inl (''no encoder for '' @ fmt))"
    for fmt w sr
    by (simp add: demo_runtime_def)
  show ?thesis
    by (simp add: format_request_response encode_response_def e)
qed

section \<open>The two surfaces compared\<close>

lemma footprint_emit [simp]: "footprint (emit e st) = footprint st @ neutral_event e"
  by (simp add: footprint_def)

lemma engine_calls_emit [simp]: "engine_calls (emit e st) = engine_calls st @ calls_of e"
  by (simp add: engine_calls_def)

lemma footprint_update [simp]:
  "footprint (st\<lparr> device := d \<rparr>) = footprint st"
  "footprint (st\<lparr> model := m \<rparr>) = footprint st"
  "footprint (st\<lparr> files := f \<rparr>) = footprint st"
  by (simp_all add: footprint_def)

lemma engine_calls_update [simp]:
  "engine_calls (st\<lparr> device := d \<rparr>) = engine_calls st"
  "engine_calls (st\<lparr> model := m \<rparr>) = engine_calls st"
  "engine_calls (st\<lparr> files := f \<rparr>) = engine_calls st"
  by (simp_all add: engine_calls_def)

lemma calls_of_simps [simp]:
  "calls_of (Log l m) = []" "calls_of (Load d) = []" "calls_of (Generate c) = [c]"
  "calls_of (Mkdir p) = []" "calls_of (Exists p) = []" "calls_of (Glob p x) = []"
  "calls_of (Unlink p) = []" "calls_of (SaveFile p) = []"
  by (simp_all add: calls_of_def)

lemma neutral_event_simps [simp]:
  "neutral_event (Log l m) = []" "neutral_event (Generate c) = [Generate (untuned c)]"
  by (simp_all add: neutral_event_def)

lemma untuned_calls [simp]:
  "untuned (native_call t p x c) = openai_call t p"
  "untuned (openai_call t p) = openai_call t p"
  by (simp_all add: untuned_def native_call_def openai_call_def)

lemma native_call_tuning [simp]:
  "exaggeration (native_call t p x c) = Some x" "cfg_weight (native_call t p x c) = Some c"
  by (simp_all add: native_call_def)

lemma get_model_engine_calls [simp]:
  "engine_calls (snd (get_model rt cfg st)) = engine_calls st"
proof (cases "model st")
  case None
  then show ?thesis
    by (cases "from_pretrained rt (load_count st) (fst (get_device rt cfg st))")
       (simp_all add: get_model_unloaded Let_def)
next
  case (Some m)
  then show ?thesis by (simp add: get_model_loaded)
qed

lemma prompt_loop_engine_calls [simp]:
  "engine_calls (snd (voice_prompt_loop cfg vp vid exts st)) = engine_calls st"
  by (induction exts arbitrary: st) (simp_all add: Let_def)

lemma resolve_prompt_engine_calls [simp]:
  "engine_calls (snd (resolve_prompt cfg st vid)) = engine_calls st"
  by (simp add: resolve_prompt_def get_voice_samples_path_def Let_def
      del: voice_prompt_loop.simps)

lemma on_exception_footprint [simp]:
  "footprint (snd (on_exception pre x)) = footprint (snd x)"
  using on_exception_snd [of pre x] by auto

lemma on_exception_engine_calls [simp]:
  "engine_calls (snd (on_exception pre x)) = engine_calls (snd x)"
  using on_exception_snd [of pre x] by auto

text \<open>What the two \<^verbatim>\<open>try\<close> blocks have in common, for the same text and voice.\<close>

lemma try_blocks_agree:
  "footprint (snd (synthesize_try rt cfg st t v x c)) = footprint (snd (openai_try rt cfg st t v f)) \<and>
   model (snd (synthesize_try rt cfg st t v x c)) = model (snd (openai_try rt cfg st t v f)) \<and>
   device (snd (synthesize_try rt cfg st t v x c)) = device (snd (openai_try rt cfg st t v f)) \<and>
   files (snd (synthesize_try rt cfg st t v x c)) = files st \<and>
   files (snd (openai_try rt cfg st t v f)) = files st \<and>
   (\<exists>calls. engine_calls (snd (synthesize_try rt cfg st t v x c)) = engine_calls st @ calls \<and>
            engine_calls (snd (openai_try rt cfg st t v f)) = engine_calls st @ map untuned calls \<and>
            list_all (\<lambda>k. exaggeration k = Some x \<and> cfg_weight k = Some c) calls \<and>
            length calls \<le> 1)"
proof (cases "get_model rt cfg st")
  case (Pair res st1)
  have fs1: "files st1 = files st"
    using get_model_files [of rt cfg st] Pair by simp
  have ec1: "engine_calls st1 = engine_calls st"
    using get_model_engine_calls [of rt cfg st] Pair by simp
  show ?thesis
  proof (cases res)
    case (Inl err)
    then have g: "get_model rt cfg st = (Inl err, st1)" using Pair by simp
    have "engine_calls st1 = engine_calls st @ [] \<and>
          engine_calls st1 = engine_calls st @ map untuned [] \<and>
          list_all (\<lambda>k. exaggeration k = Some x \<and> cfg_weight k = Some c) [] \<and>
          length ([] :: gen_call list) \<le> 1"
      by (simp add: ec1)
    then show ?thesis
      unfolding synthesize_try_unloaded [OF g] openai_try_unloaded [OF g] snd_conv
      using fs1 by blast
  next
    case (Inr m)
    then have g: "get_model rt cfg st = (Inr m, st1)" using Pair by simp
    obtain p st2 where r: "resolve_prompt cfg st1 v = (p, st2)"
      by (cases "resolve_prompt cfg st1 v")
    have fs2: "files st2 = files st"
      using resolve_prompt_files [of cfg st1 v] r fs1 by simp
    have ec2: "engine_calls st2 = engine_calls st"
      using resolve_prompt_engine_calls [of cfg st1 v] r ec1 by simp
    obtain msg where n: "snd (synthesize_try rt cfg st t v x c) =
        emit (Generate (native_call t p x c)) (emit (Log ''info'' msg) st2)"
      using synthesize_try_loaded(1) [OF g r] by blast
    obtain msg' where o: "snd (openai_try rt cfg st t v f) =
        emit (Generate (openai_call t p)) (emit (Log ''info'' msg') st2)"
      using openai_try_loaded(1) [OF g r] by blast
    have "engine_calls (snd (synthesize_try rt cfg st t v x c)) =
            engine_calls st @ [native_call t p x c] \<and>
          engine_calls (snd (openai_try rt cfg st t v f)) =
            engine_calls st @ map untuned [native_call t p x c] \<and>
          list_all (\<lambda>k. exaggeration k = Some x \<and> cfg_weight k = Some c) [native_call t p x c] \<and>
          length [native_call t p x c] \<le> 1"
      by (simp add: n o ec2)
    then have "\<exists>calls. engine_calls (snd (synthesize_try rt cfg st t v x c)) = engine_calls st @ calls \<and>
            engine_calls (snd (openai_try rt cfg st t v f)) = engine_calls st @ map untuned calls \<and>
            list_all (\<lambda>k. exaggeration k = Some x \<and> cfg_weight k = Some c) calls \<and>
            length calls \<le> 1"
      by blast
    then show ?thesis
      by (simp add: n o fs2)
  qed
qed

text \<open>
  C5. For requests with the same text and voice on the same state, the two endpoints
  reject the text alike, load the model and look the voice up alike, leave the same
  model, device and files, and invoke the engine with the same text and reference
  audio. The native endpoint passes \<^verbatim>\<open>exaggeration\<close> and \<^verbatim>\<open>cfg_weight\<close> (the
  request's values, 0.5 when absent) on every call; the compatible endpoint passes
  neither and leaves both to the engine's defaults.
\<close>

theorem surfaces_agree_up_to_tuning:
  assumes "request_text Native rn = request_text OpenAI ro"
    and "get_or (req_voice rn) ''default'' = get_or (req_voice ro) ''default''"
  shows "footprint (snd (synthesize rt cfg st rn)) =
           footprint (snd (openai_compatible_synthesize rt cfg st ro)) \<and>
         model (snd (synthesize rt cfg st rn)) =
           model (snd (openai_compatible_synthesize rt cfg st ro)) \<and>
         device (snd (synthesize rt cfg st rn)) =
           device (snd (openai_compatible_synthesize rt cfg st ro)) \<and>
         files (snd (synthesize rt cfg st rn)) = files st \<and>
         files (snd (openai_compatible_synthesize rt cfg st ro)) = files st \<and>
         (status_of (fst (synthesize rt cfg st rn)) = 400 \<longleftrightarrow>
            status_of (fst (openai_compatible_synthesize rt cfg st ro)) = 400) \<and>
         (\<exists>calls.
            engine_calls (snd (synthesize rt cfg st rn)) = engine_calls st @ calls \<and>
            engine_calls (snd (openai_compatible_synthesize rt cfg st ro)) =
              engine_calls st @ map untuned calls \<and>
            list_all (\<lambda>k. exaggeration k = Some (get_or (req_exaggeration rn) 0.5) \<and>
                           cfg_weight k = Some (get_or (req_cfg_weight rn) 0.5)) calls \<and>
            length calls \<le> 1)"
proof -
  consider (rej) "text_rejected (request_text Native rn)"
    | (acc) t where "request_text Native rn = Some t" "t \<noteq> ''''" "length t \<le> 4096"
    using text_rejected_cases [of "request_text Native rn"] by blast
  then show ?thesis
  proof cases
    case rej
    then have rej': "text_rejected (request_text OpenAI ro)"
      using assms(1) by simp
    have n: "snd (synthesize rt cfg st rn) = st" "status_of (fst (synthesize rt cfg st rn)) = 400"
      using synthesize_rejected [OF rej, of rt cfg st] by simp_all
    have o: "snd (openai_compatible_synthesize rt cfg st ro) = st"
      "status_of (fst (openai_compatible_synthesize rt cfg st ro)) = 400"
      using openai_rejected [OF rej', of rt cfg st] by simp_all
    have "engine_calls st = engine_calls st @ [] \<and>
          engine_calls st = engine_calls st @ map untuned [] \<and>
          list_all (\<lambda>k. exaggeration k = Some (get_or (req_exaggeration rn) 0.5) \<and>
                         cfg_weight k = Some (get_or (req_cfg_weight rn) 0.5)) [] \<and>
          length ([] :: gen_call list) \<le> 1"
      by simp
    then show ?thesis
      unfolding n o by blast
  next
    case acc
    have acc': "request_text OpenAI ro = Some t"
      using acc(1) assms(1) by simp
    show ?thesis
      using try_blocks_agree [of rt cfg st t "get_or (req_voice ro) ''default''"
              "get_or (req_exaggeration rn) 0.5" "get_or (req_cfg_weight rn) 0.5"
              "get_or (req_response_format ro) ''mp3''"]
      by (simp add: synthesize_accepted [OF acc] openai_accepted [OF acc' acc(2,3)] assms(2)
            on_exception_status)
  qed
qed

lemma tuned_request_fields:
  "request_text Native (tuned_request x) = Some ''hello''"
  "request_text OpenAI (tuned_request x) = Some ''hello''"
  "get_or (req_voice (tuned_request x)) ''default'' = ''default''"
  "get_or (req_exaggeration (tuned_request x)) d = x"
  "get_or (req_cfg_weight (tuned_request x)) d = d"
  by (simp_all add: tuned_request_def input_request_def request_text_def py_or_def truthy_def
        get_or_def)

theorem surfaces_agree_up_to_tuning_witness:
  "request_text Native (tuned_request 0.9) = request_text OpenAI (tuned_request 0.1) \<and>
   get_or (req_voice (tuned_request 0.9)) ''default'' =
     get_or (req_voice (tuned_request 0.1)) ''default'' \<and>
   footprint (snd (synthesize demo_runtime demo_config stocked_server (tuned_request 0.9))) =
     footprint (snd (openai_compatible_synthesize demo_runtime demo_config stocked_server
                       (tuned_request 0.1))) \<and>
   files (snd (synthesize demo_runtime demo_config stocked_server (tuned_request 0.9))) =
     shared_store"
proof -
  have a: "request_text Native (tuned_request 0.9) = request_text OpenAI (tuned_request 0.1)"
    by (simp add: tuned_request_fields)
  have b: "get_or (req_voice (tuned_request 0.9)) ''default'' =
             get_or (req_voice (tuned_request 0.1)) ''default''"
    by (simp add: tuned_request_fields)
  have f: "files stocked_server = shared_store"
    by (simp add: stocked_server_def)
  show ?thesis
    using surfaces_agree_up_to_tuning [OF a b, of demo_runtime demo_config stocked_server] a b f
    by simp
qed

lemma stocked_calls: "engine_calls stocked_server = []"
  by (simp add: engine_calls_def stocked_server_def)

lemma native_tuned_calls:
  "engine_calls (snd (synthesize demo_runtime demo_config stocked_server (tuned_request x))) =
     [\<lparr> gen_text = ''hello'', audio_prompt_path = None,
        exaggeration = Some x, cfg_weight = Some 0.5 \<rparr>]"
proof -
  obtain msg where
    "snd (synthesize_try demo_runtime demo_config stocked_server ''hello'' ''default'' x 0.5) =
       emit (Generate (native_call ''hello'' None x 0.5)) (emit (Log ''info'' msg) stocked_server)"
    using synthesize_try_loaded(1) [OF stocked_loaded resolve_prompt_default] by blast
  then show ?thesis
    by (simp add: synthesize_accepted [OF tuned_request_fields(1)] tuned_request_fields
          stocked_calls native_call_def truthy_def)
qed

lemma openai_tuned_calls:
  "engine_calls (snd (openai_compatible_synthesize demo_runtime demo_config stocked_server
                        (tuned_request x))) =
     [\<lparr> gen_text = ''hello'', audio_prompt_path = None,
        exaggeration = None, cfg_weight = None \<rparr>]"
proof -
  obtain msg where
    "snd (openai_try demo_runtime demo_config stocked_server ''hello'' ''default''
            (get_or (req_response_format (tuned_request x)) ''mp3'')) =
       emit (Generate (openai_call ''hello'' None)) (emit (Log ''info'' msg) stocked_server)"
    using openai_try_loaded(1) [OF stocked_loaded resolve_prompt_default] by blast
  then show ?thesis
    by (simp add: openai_accepted [OF tuned_request_fields(2)] tuned_request_fields
          stocked_calls openai_call_def truthy_def)
qed

text \<open>The same text and voice with two values of \<^verbatim>\<open>exaggeration\<close>: the native endpoint
  hands each value to the engine, the compatible endpoint makes one and the same call
  for both, so the invocations of the two endpoints differ.\<close>

theorem tuning_reaches_native_only:
  "engine_calls (snd (synthesize demo_runtime demo_config stocked_server (tuned_request 0.9))) \<noteq>
   engine_calls (snd (openai_compatible_synthesize demo_runtime demo_config stocked_server
                        (tuned_request 0.9))) \<and>
   engine_calls (snd (synthesize demo_runtime demo_config stocked_server (tuned_request 0.9))) \<noteq>
   engine_calls (snd (synthesize demo_runtime demo_config stocked_server (tuned_request 0.1))) \<and>
   engine_calls (snd (openai_compatible_synthesize demo_runtime demo_config stocked_server
                        (tuned_request 0.9))) =
   engine_calls (snd (openai_compatible_synthesize demo_runtime demo_config stocked_server
                        (tuned_request 0.1)))"
  by (simp add: native_tuned_calls openai_tuned_calls)

section \<open>Sanitised names and paths\<close>




lemma split_slash_plain:
  "CHR ''/'' \<notin> set s \<Longrightarrow> split_slash cur s = [rev cur @ s]"
  by (induction s arbitrary: cur) auto


lemma Path_plain_name:
  assumes "CHR ''/'' \<notin> set n" "n \<noteq> ''''" "n \<noteq> ''.''"
  shows "Path n = \<lparr> root = '''', parts = [n] \<rparr>"
proof -
  have "take 1 n \<noteq> ''/''"
    using assms(1,2) by (cases n) auto
  then show ?thesis
    using assms by (simp add: Path_def path_root_def split_slash_plain)
qed

lemma candidate_plain:
  assumes "CHR ''/'' \<notin> set n" "n \<noteq> ''''" "n \<noteq> ''.''"
  shows "path_join d n = d\<lparr> parts := parts d @ [n] \<rparr>"
  using Path_plain_name [OF assms] by (simp add: path_join_def Let_def)





section \<open>Uploading a voice\<close>

lemma map_of_updated:
  "map_of (map (\<lambda>e. if fst e = k then (fst e, d) else e) fs) k =
     (if map_of fs k = None then None else Some d)"
  by (induction fs) auto

lemma map_of_write_file:
  "map_of (write_file wd fs p d) (locate wd p) = Some d"
  by (simp add: write_file_def file_exists_def map_of_updated map_add_def)

lemma file_exists_write_file: "file_exists wd (write_file wd fs p d) p"
  by (simp add: file_exists_def map_of_write_file)

lemma length_mean_channels [simp]: "length (mean_channels w) = 1"
  by (simp add: mean_channels_def)

lemma normalize_waveform_channels:
  "w \<noteq> [] \<Longrightarrow> length (normalize_waveform rt w sr) = 1"
  by (cases w; cases "tl w") (simp_all add: normalize_waveform_def Let_def)

lemma upload_voice_valid:
  assumes "filename audio = Some fname" "fname \<noteq> ''''" "safe_name_of name \<noteq> ''''"
    and "lower (path_suffix (Path fname)) \<in> set [''.wav'', ''.mp3'', ''.ogg'', ''.flac'']"
    and "ta_load rt (lower (path_suffix (Path fname))) (content audio) = Inr (w0, sr0)"
    and "ta_save_file rt (path_str (candidate cfg (safe_name_of name) ''.wav''))
           (normalize_waveform rt w0 sr0) 24000 = None"
  shows "fst (upload_voice rt cfg st audio name) =
           Inr \<lparr> up_success = True, up_voice_id = safe_name_of name,
                 up_path = path_str (candidate cfg (safe_name_of name) ''.wav'') \<rparr>"
    and "files (snd (upload_voice rt cfg st audio name)) =
           write_file (cwd cfg) (files st) (candidate cfg (safe_name_of name) ''.wav'')
             (AudioFile (normalize_waveform rt w0 sr0) 24000)"
  using assms
  by (auto simp: upload_voice_def Let_def get_voice_samples_path_def candidate_def
        voices_dir_def)

lemma upload_voice_accepted:
  assumes "fst (upload_voice rt cfg st audio name) = Inr ok"
    and "filename audio = Some fname"
    and "ta_load rt (lower (path_suffix (Path fname))) (content audio) = Inr (w0, sr0)"
  shows "fname \<noteq> ''''" "safe_name_of name \<noteq> ''''"
    and "lower (path_suffix (Path fname)) \<in> set [''.wav'', ''.mp3'', ''.ogg'', ''.flac'']"
    and "ta_save_file rt (path_str (candidate cfg (safe_name_of name) ''.wav''))
           (normalize_waveform rt w0 sr0) 24000 = None"
proof -
  show 1: "fname \<noteq> ''''"
    using assms(1,2) by (auto simp: upload_voice_def)
  show 2: "safe_name_of name \<noteq> ''''"
    using assms(1,2) 1 by (auto simp: upload_voice_def Let_def)
  show 3: "lower (path_suffix (Path fname)) \<in> set [''.wav'', ''.mp3'', ''.ogg'', ''.flac'']"
  proof (rule ccontr)
    assume "lower (path_suffix (Path fname)) \<notin> set [''.wav'', ''.mp3'', ''.ogg'', ''.flac'']"
    then show False
      using assms(1,2) 1 2 by (simp add: upload_voice_def Let_def)
  qed
  show "ta_save_file rt (path_str (candidate cfg (safe_name_of name) ''.wav''))
           (normalize_waveform rt w0 sr0) 24000 = None"
  proof (rule ccontr)
    assume "ta_save_file rt (path_str (candidate cfg (safe_name_of name) ''.wav''))
           (normalize_waveform rt w0 sr0) 24000 \<noteq> None"
    then obtain e where "ta_save_file rt (path_str (candidate cfg (safe_name_of name) ''.wav''))
           (normalize_waveform rt w0 sr0) 24000 = Some e"
      by auto
    then show False
      using assms 1 2 3
      by (auto simp: upload_voice_def Let_def get_voice_samples_path_def candidate_def
            voices_dir_def)
  qed
qed

text \<open>
  C9. When an upload is accepted, the decoded audio has at least one channel and the
  sanitised name is not \<^verbatim>\<open>default\<close>, the asset is stored as
  \<^verbatim>\<open><name>.wav\<close> under the sanitised name, resolving that name afterwards yields the
  stored path, and the stored audio has one channel at 24000 Hz, whatever the channel
  count and rate of the upload.
\<close>

theorem upload_then_resolve:
  assumes "filename audio = Some fname"
    and "ta_load rt (lower (path_suffix (Path fname))) (content audio) = Inr (w0, sr0)"
    and "w0 \<noteq> []"
    and "fst (upload_voice rt cfg st audio name) = Inr ok"
    and "up_voice_id ok \<noteq> ''default''"
  shows "up_voice_id ok = safe_name_of name \<and>
         up_path ok = path_str (candidate cfg (safe_name_of name) ''.wav'') \<and>
         fst (resolve_prompt cfg (snd (upload_voice rt cfg st audio name)) (up_voice_id ok)) =
           Some (up_path ok) \<and>
         (\<exists>w. map_of (files (snd (upload_voice rt cfg st audio name)))
                 (locate (cwd cfg) (candidate cfg (safe_name_of name) ''.wav'')) =
                 Some (AudioFile w 24000) \<and>
               length w = 1)"
proof -
  let ?st' = "snd (upload_voice rt cfg st audio name)"
  let ?p = "candidate cfg (safe_name_of name) ''.wav''"
  note acc = upload_voice_accepted [OF assms(4) assms(1) assms(2)]
  note val = upload_voice_valid [OF assms(1) acc(1) acc(2) acc(3) assms(2) acc(4)]
  have ok: "ok = \<lparr> up_success = True, up_voice_id = safe_name_of name, up_path = path_str ?p \<rparr>"
    using val(1) [of st] assms(4) by simp
  have fs: "files ?st' =
      write_file (cwd cfg) (files st) ?p (AudioFile (normalize_waveform rt w0 sr0) 24000)"
    by (rule val(2))
  have ex: "has_file cfg ?st' ?p"
    by (simp add: has_file_def fs file_exists_write_file)
  have nd: "safe_name_of name \<noteq> ''default''"
    using assms(5) ok by simp
  have res: "fst (resolve_prompt cfg ?st' (safe_name_of name)) = Some (path_str ?p)"
    by (rule resolve_prompt_wav [OF nd ex])
  have stored: "map_of (files ?st') (locate (cwd cfg) ?p) =
      Some (AudioFile (normalize_waveform rt w0 sr0) 24000)"
    by (simp add: fs map_of_write_file)
  have ch: "length (normalize_waveform rt w0 sr0) = 1"
    by (rule normalize_waveform_channels [OF assms(3)])
  show ?thesis
    using ok res stored ch by simp
qed

lemma safe_name_my_voice: "safe_name_of ''My Voice!'' = ''my_voice_''"
  by (simp add: safe_name_of_def lower_def lower_char_def isalnum_def in_range_def char_of_eq_iff take_bit_eq_mod)

lemma safe_name_default: "safe_name_of ''Default'' = ''default''"
  by (simp add: safe_name_of_def lower_def lower_char_def isalnum_def in_range_def char_of_eq_iff take_bit_eq_mod)

lemma demo_upload_suffix: "lower (path_suffix (Path ''sample.WAV'')) = ''.wav''"
  by (simp add: path_suffix_def path_name_def Path_def path_root_def name_suffix_def
        lower_def lower_char_def in_range_def char_of_eq_iff take_bit_eq_mod)

lemma demo_upload_accepted:
  assumes "safe_name_of name \<noteq> ''''"
  shows "fst (upload_voice demo_runtime demo_config st demo_upload name) =
           Inr \<lparr> up_success = True, up_voice_id = safe_name_of name,
                 up_path = path_str (candidate demo_config (safe_name_of name) ''.wav'') \<rparr>"
proof -
  have f: "filename demo_upload = Some ''sample.WAV''"
    by (simp add: demo_upload_def)
  have l: "ta_load demo_runtime (lower (path_suffix (Path ''sample.WAV''))) (content demo_upload) =
             Inr ([[1, 3], [3, 5]], 48000)"
    by (simp add: demo_runtime_def)
  have s: "ta_save_file demo_runtime p w r = None" for p w r
    by (simp add: demo_runtime_def)
  show ?thesis
    by (rule upload_voice_valid(1) [OF f _ assms _ l s]) (simp_all add: demo_upload_suffix)
qed

lemma demo_candidate_str:
  assumes "CHR ''/'' \<notin> set n" "n \<noteq> ''''"
  shows "path_str (candidate demo_config n ''.wav'') = ''/data/voices/'' @ n @ ''.wav''"
proof -
  have d: "voices_dir demo_config = \<lparr> root = ''/'', parts = [''data'', ''voices''] \<rparr>"
    by (simp add: voices_dir_def demo_config_def Path_def path_root_def)
  have "candidate demo_config n ''.wav'' =
          \<lparr> root = ''/'', parts = [''data'', ''voices'', n @ ''.wav''] \<rparr>"
    using candidate_plain [of "n @ ''.wav''" "voices_dir demo_config"] assms
    by (simp add: candidate_def d)
  then show ?thesis
    by (simp add: path_str_def)
qed

theorem upload_then_resolve_witness:
  "filename demo_upload = Some ''sample.WAV'' \<and>
   ta_load demo_runtime (lower (path_suffix (Path ''sample.WAV''))) (content demo_upload) =
     Inr ([[1, 3], [3, 5]], 48000) \<and>
   fst (upload_voice demo_runtime demo_config fresh_server demo_upload ''My Voice!'') =
     Inr \<lparr> up_success = True, up_voice_id = ''my_voice_'',
           up_path = ''/data/voices/my_voice_.wav'' \<rparr> \<and>
   fst (resolve_prompt demo_config
          (snd (upload_voice demo_runtime demo_config fresh_server demo_upload ''My Voice!''))
          ''my_voice_'') = Some ''/data/voices/my_voice_.wav'' \<and>
   (\<exists>w. map_of (files (snd (upload_voice demo_runtime demo_config fresh_server demo_upload
                              ''My Voice!'')))
           (locate (cwd demo_config) (candidate demo_config ''my_voice_'' ''.wav'')) =
           Some (AudioFile w 24000) \<and>
         length w = 1)"
proof -
  have f: "filename demo_upload = Some ''sample.WAV''"
    by (simp add: demo_upload_def)
  have l: "ta_load demo_runtime (lower (path_suffix (Path ''sample.WAV''))) (content demo_upload) =
             Inr ([[1, 3], [3, 5]], 48000)"
    by (simp add: demo_runtime_def)
  have c: "[[1, 3], [3, 5]] \<noteq> ([] :: waveform)"
    by simp
  have u: "fst (upload_voice demo_runtime demo_config fresh_server demo_upload ''My Voice!'') =
     Inr \<lparr> up_success = True, up_voice_id = ''my_voice_'',
           up_path = ''/data/voices/my_voice_.wav'' \<rparr>"
    using demo_upload_accepted [of "''My Voice!''" fresh_server]
      demo_candidate_str [of "''my_voice_''"]
    by (simp add: safe_name_my_voice)
  show ?thesis
    using upload_then_resolve [OF f l c u] f l u
    by (simp add: safe_name_my_voice)
qed

text \<open>An upload under the name \<^verbatim>\<open>Default\<close> is accepted and stored as
  \<^verbatim>\<open>default.wav\<close>, yet resolving the id it returns yields no reference audio.\<close>

theorem upload_default_not_resolved:
  "fst (upload_voice demo_runtime demo_config fresh_server demo_upload ''Default'') =
     Inr \<lparr> up_success = True, up_voice_id = ''default'',
           up_path = ''/data/voices/default.wav'' \<rparr> \<and>
   fst (resolve_prompt demo_config
          (snd (upload_voice demo_runtime demo_config fresh_server demo_upload ''Default''))
          ''default'') = None"
  using demo_upload_accepted [of "''Default''" fresh_server]
    demo_candidate_str [of "''default''"]
  by (simp add: safe_name_default)

section \<open>Voice ids as path fragments\<close>










end
